theory Spec2Isabelle
  imports Complex_Main
begin

section \<open>Python values\<close>

text \<open>
  The decoder of \<^verbatim>\<open>scraper/scraper.py\<close> works on the object tree that the JSON parser
  returns: \<^verbatim>\<open>None\<close>, booleans, unbounded integers, floats, strings, lists and dicts with
  string keys. A finite float is represented by its exact rational value (every double is
  a rational; negative zero is identified with zero), the three special floats by
  constructors of their own. A string is its UTF-8 byte sequence. A dict is the list of
  its items in insertion order; Python keeps the keys of a dict distinct.
  Integers are unbounded and their conversion from and to decimal text is total: the
  interpreter's configurable cap on the number of digits of such conversions is not
  part of the model.
\<close>

datatype pyfloat = Finite rat | PosInf | NegInf | NaN

datatype pyvalue =
    PyNone
  | PyBool bool
  | PyInt int
  | PyFloat pyfloat
  | PyStr string
  | PyList "pyvalue list"
  | PyDict "(string \<times> pyvalue) list"

text \<open>Exceptions are values; \<open>Inl\<close> of a result is a raised exception.\<close>

datatype pyerror =
    ValueError string
  | AttributeError
  | KeyError
  | TypeError
  | IndexError

definition bind_result :: "pyerror + 'a \<Rightarrow> ('a \<Rightarrow> pyerror + 'b) \<Rightarrow> pyerror + 'b" where
  "bind_result m f = (case m of Inl e \<Rightarrow> Inl e | Inr x \<Rightarrow> f x)"

text \<open>
  What the code takes from the interpreter and its libraries, as a parameter of the model:
  \<^item> \<open>float_of_str s\<close> is \<^verbatim>\<open>float(s)\<close>, \<open>None\<close> when it raises;
  \<^item> \<open>truediv_1000 t\<close> is \<^verbatim>\<open>t / 1000\<close> for a number \<open>t\<close>, \<open>None\<close> when it raises;
  \<^item> \<open>strftime_ymd t\<close> is \<^verbatim>\<open>datetime.fromtimestamp(t).strftime('%Y-%m-%d')\<close> in the local
    time zone, \<open>None\<close> when either call raises;
  \<^item> \<open>isdigit_nonascii s\<close> and \<open>int_nonascii s\<close> are \<^verbatim>\<open>s.isdigit()\<close> and \<^verbatim>\<open>int(s)\<close> for a
    string with a character outside ASCII (they depend on the Unicode tables).
\<close>

record pyrt =
  float_of_str :: "string \<Rightarrow> pyfloat option"
  truediv_1000 :: "pyvalue \<Rightarrow> pyvalue option"
  strftime_ymd :: "pyvalue \<Rightarrow> string option"
  isdigit_nonascii :: "string \<Rightarrow> bool"
  int_nonascii :: "string \<Rightarrow> int option"

text \<open>Truth value testing (\<^verbatim>\<open>if x:\<close>).\<close>

fun truthy :: "pyvalue \<Rightarrow> bool" where
  "truthy PyNone = False"
| "truthy (PyBool b) = b"
| "truthy (PyInt n) = (n \<noteq> 0)"
| "truthy (PyFloat f) = (f \<noteq> Finite 0)"
| "truthy (PyStr s) = (s \<noteq> [])"
| "truthy (PyList xs) = (xs \<noteq> [])"
| "truthy (PyDict kvs) = (kvs \<noteq> [])"

text \<open>\<^verbatim>\<open>obj.get(key, default)\<close>: only a dict has the method.\<close>

fun py_get :: "pyvalue \<Rightarrow> string \<Rightarrow> pyvalue \<Rightarrow> pyerror + pyvalue" where
  "py_get (PyDict kvs) k d = Inr (case map_of kvs k of Some v \<Rightarrow> v | None \<Rightarrow> d)"
| "py_get _ k d = Inl AttributeError"

text \<open>
  The characters of a string: a UTF-8 continuation byte (\<open>0x80..0xBF\<close>) belongs to the
  character that the preceding lead byte starts.
\<close>

definition is_continuation :: "char \<Rightarrow> bool" where
  "is_continuation c = (128 \<le> (of_char c :: nat) \<and> (of_char c :: nat) < 192)"

function codepoints :: "string \<Rightarrow> string list" where
  "codepoints [] = []"
| "codepoints (c # cs) =
     (c # takeWhile is_continuation cs) # codepoints (dropWhile is_continuation cs)"
  by pat_completeness auto
termination
  by (relation "measure length") (auto simp: le_imp_less_Suc length_dropWhile_le)

text \<open>\<^verbatim>\<open>len(x)\<close> and \<^verbatim>\<open>x[i]\<close> for an index \<open>i \<ge> 0\<close>. The keys of a dict are strings, so an
  integer index is never one of them.\<close>

fun py_len :: "pyvalue \<Rightarrow> pyerror + nat" where
  "py_len (PyList xs) = Inr (length xs)"
| "py_len (PyStr s) = Inr (length (codepoints s))"
| "py_len (PyDict kvs) = Inr (length kvs)"
| "py_len _ = Inl TypeError"

fun py_getitem :: "pyvalue \<Rightarrow> nat \<Rightarrow> pyerror + pyvalue" where
  "py_getitem (PyList xs) i = (if i < length xs then Inr (xs ! i) else Inl IndexError)"
| "py_getitem (PyStr s) i =
     (if i < length (codepoints s) then Inr (PyStr (codepoints s ! i)) else Inl IndexError)"
| "py_getitem (PyDict kvs) i = Inl KeyError"
| "py_getitem _ i = Inl TypeError"

subsection \<open>Decimal and binary text of integers\<close>

definition digit_char :: "nat \<Rightarrow> char" where
  "digit_char d = ''0123456789'' ! d"

definition is_ascii_digit :: "char \<Rightarrow> bool" where
  "is_ascii_digit c = (48 \<le> (of_char c :: nat) \<and> (of_char c :: nat) \<le> 57)"

definition digit_value :: "char \<Rightarrow> nat" where
  "digit_value c = of_char c - 48"

text \<open>The decimal digits of an integer \<open>n \<ge> 0\<close>, most significant first.\<close>

function dec_digits :: "int \<Rightarrow> string" where
  "dec_digits n =
     (if n < 10 then [digit_char (nat n)]
      else dec_digits (n div 10) @ [digit_char (nat (n mod 10))])"
  by pat_completeness auto
termination
  by (relation "measure nat") auto

text \<open>\<^verbatim>\<open>str(k)\<close> for an integer, as the f-string \<^verbatim>\<open>f"{index}"\<close> renders it.\<close>

definition str_of_int :: "int \<Rightarrow> string" where
  "str_of_int k = (if k < 0 then CHR ''-'' # dec_digits (- k) else dec_digits k)"

text \<open>The value of a string of ASCII digits, as \<^verbatim>\<open>int(s)\<close> reads it.\<close>

definition dec_value :: "string \<Rightarrow> int" where
  "dec_value s = foldl (\<lambda>a c. 10 * a + int (digit_value c)) 0 s"

text \<open>The binary digits of an integer \<open>n \<ge> 0\<close>, most significant first.\<close>

function bin_digits :: "int \<Rightarrow> string" where
  "bin_digits n =
     (if n < 2 then [digit_char (nat n)]
      else bin_digits (n div 2) @ [digit_char (nat (n mod 2))])"
  by pat_completeness auto
termination
  by (relation "measure nat") auto

definition zfill :: "nat \<Rightarrow> string \<Rightarrow> string" where
  "zfill w ds = replicate (w - length ds) (CHR ''0'') @ ds"

text \<open>\<^verbatim>\<open>format(value, '016b')\<close> for an integer: binary digits padded with zeros to a width
  of 16, the sign of a negative number counting as one of the 16 characters.\<close>

definition format_016b :: "int \<Rightarrow> string" where
  "format_016b n =
     (if n < 0 then CHR ''-'' # zfill 15 (bin_digits (- n)) else zfill 16 (bin_digits n))"

section \<open>The binary masks\<close>

text \<open>
  \<^verbatim>\<open>reverse_binary_16bit(value)\<close>. \<^verbatim>\<open>format\<close> accepts the code \<^verbatim>\<open>b\<close> for an integer (a boolean
  is one); for a float or a string it raises \<^verbatim>\<open>ValueError\<close>, for a list or a dict
  \<^verbatim>\<open>TypeError\<close>.
\<close>

fun reverse_binary_16bit :: "pyvalue \<Rightarrow> pyerror + string" where
  "reverse_binary_16bit PyNone = Inr ''0000000000000000''"
| "reverse_binary_16bit (PyInt n) = Inr (rev (format_016b n))"
| "reverse_binary_16bit (PyBool b) = Inr (rev (format_016b (if b then 1 else 0)))"
| "reverse_binary_16bit (PyFloat f) = Inl (ValueError ''Unknown format code'')"
| "reverse_binary_16bit (PyStr s) = Inl (ValueError ''Unknown format code'')"
| "reverse_binary_16bit (PyList xs) = Inl TypeError"
| "reverse_binary_16bit (PyDict kvs) = Inl TypeError"

text \<open>\<^verbatim>\<open>int(r_binary[col_idx])\<close>: the character at the column's position, read as a digit.\<close>

definition mask_bit :: "string \<Rightarrow> nat \<Rightarrow> pyerror + nat" where
  "mask_bit binary col_idx =
     (if col_idx < length binary then
        (if is_ascii_digit (binary ! col_idx) then Inr (digit_value (binary ! col_idx))
         else Inl (ValueError ''invalid literal for int()''))
      else Inl IndexError)"

section \<open>Timestamps\<close>

text \<open>\<^verbatim>\<open>x > k\<close> for an integer constant \<open>k\<close>; \<open>None\<close> is the \<^verbatim>\<open>TypeError\<close> of an operand that
  is not a number. Python compares an integer with a float exactly.\<close>

fun py_gt :: "pyvalue \<Rightarrow> int \<Rightarrow> bool option" where
  "py_gt (PyBool b) k = Some ((if b then 1 else 0) > k)"
| "py_gt (PyInt n) k = Some (n > k)"
| "py_gt (PyFloat (Finite q)) k = Some (q > of_int k)"
| "py_gt (PyFloat PosInf) k = Some True"
| "py_gt (PyFloat NegInf) k = Some False"
| "py_gt (PyFloat NaN) k = Some False"
| "py_gt _ k = None"

text \<open>The two rendering branches of \<^verbatim>\<open>convert_timestamp\<close>; \<open>None\<close> when a call in the branch
  raises.\<close>

definition date_from_millis :: "pyrt \<Rightarrow> pyvalue \<Rightarrow> string option" where
  "date_from_millis rt t =
     (case truediv_1000 rt t of None \<Rightarrow> None | Some timestamp_seconds \<Rightarrow> strftime_ymd rt timestamp_seconds)"

definition date_from_seconds :: "pyrt \<Rightarrow> pyvalue \<Rightarrow> string option" where
  "date_from_seconds rt t = strftime_ymd rt t"

text \<open>
  \<^verbatim>\<open>convert_timestamp(timestamp)\<close>. The bare \<^verbatim>\<open>except\<close> catches whatever the body raises and
  the function then returns the variable \<^verbatim>\<open>timestamp\<close>, which holds the float once
  \<^verbatim>\<open>float(timestamp)\<close> has succeeded on a string.
\<close>

definition convert_timestamp :: "pyrt \<Rightarrow> pyvalue \<Rightarrow> pyvalue" where
  "convert_timestamp rt timestamp =
     (if truthy timestamp then
        (case (case timestamp of
                 PyStr s \<Rightarrow> map_option PyFloat (float_of_str rt s)
               | _ \<Rightarrow> Some timestamp) of
           None \<Rightarrow> timestamp
         | Some t \<Rightarrow>
             (case py_gt t 1000000000000 of
                None \<Rightarrow> t
              | Some True \<Rightarrow>
                  (case date_from_millis rt t of Some d \<Rightarrow> PyStr d | None \<Rightarrow> t)
              | Some False \<Rightarrow>
                  (case py_gt t 1000000000 of
                     Some True \<Rightarrow>
                       (case date_from_seconds rt t of Some d \<Rightarrow> PyStr d | None \<Rightarrow> t)
                   | _ \<Rightarrow> t)))
      else timestamp)"

section \<open>Decoding one row\<close>

text \<open>
  The index that a dictionary-backed column computes from a raw entry (the first
  statement of the \<^verbatim>\<open>try\<close> block): a string of digits and a number are converted with
  \<^verbatim>\<open>int\<close>, which truncates a float towards zero and raises on an infinity, a NaN and on
  digits that are not decimal digits; any other entry is not converted at all.
\<close>

datatype coercion = Index int | NotCoercible | Raised

definition py_isdigit :: "pyrt \<Rightarrow> string \<Rightarrow> bool" where
  "py_isdigit rt s =
     (if list_all (\<lambda>c. (of_char c :: nat) < 128) s then s \<noteq> [] \<and> list_all is_ascii_digit s
      else isdigit_nonascii rt s)"

definition py_int_of_str :: "pyrt \<Rightarrow> string \<Rightarrow> int option" where
  "py_int_of_str rt s =
     (if list_all (\<lambda>c. (of_char c :: nat) < 128) s then Some (dec_value s)
      else int_nonascii rt s)"

definition truncate :: "rat \<Rightarrow> int" where
  "truncate q = (if 0 \<le> q then \<lfloor>q\<rfloor> else \<lceil>q\<rceil>)"

fun coerce_index :: "pyrt \<Rightarrow> pyvalue \<Rightarrow> coercion" where
  "coerce_index rt (PyStr s) =
     (if py_isdigit rt s then
        (case py_int_of_str rt s of Some k \<Rightarrow> Index k | None \<Rightarrow> Raised)
      else NotCoercible)"
| "coerce_index rt (PyInt n) = Index n"
| "coerce_index rt (PyBool b) = Index (if b then 1 else 0)"
| "coerce_index rt (PyFloat (Finite q)) = Index (truncate q)"
| "coerce_index rt (PyFloat PosInf) = Raised"
| "coerce_index rt (PyFloat NegInf) = Raised"
| "coerce_index rt (PyFloat NaN) = Raised"
| "coerce_index rt PyNone = NotCoercible"
| "coerce_index rt (PyList xs) = NotCoercible"
| "coerce_index rt (PyDict kvs) = NotCoercible"

definition out_of_range :: "int \<Rightarrow> pyvalue" where
  "out_of_range index = PyStr (''Index_'' @ str_of_int index @ ''_OutOfRange'')"

text \<open>
  The rest of the \<^verbatim>\<open>try\<close> block, for the index \<open>index\<close>: the chained comparison
  \<^verbatim>\<open>0 <= index < len(dict_values)\<close> asks for the length only when \<open>0 \<le> index\<close>; an
  exception of \<^verbatim>\<open>len\<close> or of the subscript is caught and gives the raw entry.
\<close>

definition map_index :: "pyvalue \<Rightarrow> int \<Rightarrow> pyvalue \<Rightarrow> pyvalue" where
  "map_index dict_values index raw_value =
     (if 0 \<le> index then
        (case py_len dict_values of
           Inl e \<Rightarrow> raw_value
         | Inr n \<Rightarrow>
             (if index < int n then
                (case py_getitem dict_values (nat index) of Inl e \<Rightarrow> raw_value | Inr v \<Rightarrow> v)
              else out_of_range index))
      else out_of_range index)"

definition columns :: "string list" where
  "columns = [''G0'', ''G1'', ''G2'', ''G3'', ''G4'', ''G5'', ''G6'', ''G7'', ''G8'', ''G9'', ''G10'',
              ''M0'', ''M1'', ''M2'', ''M3'']"

text \<open>
  The value of a column that takes the raw entry \<open>raw_value\<close> from the \<^verbatim>\<open>C\<close> array, and
  whether the statement \<^verbatim>\<open>value_index += 1\<close> at the end of the branch is reached: the
  \<^verbatim>\<open>continue\<close> of an entry that is not converted leaves the loop body before it.
\<close>

definition resolve_value ::
  "pyrt \<Rightarrow> (string \<times> pyvalue) list \<Rightarrow> string \<Rightarrow> pyvalue \<Rightarrow> pyvalue \<times> bool" where
  "resolve_value rt dictionaries column_name raw_value =
     (if column_name = ''G0'' then (convert_timestamp rt raw_value, True)
      else
        (case map_of dictionaries column_name of
           Some dict_values \<Rightarrow>
             (case coerce_index rt raw_value of
                Index index \<Rightarrow> (map_index dict_values index raw_value, True)
              | NotCoercible \<Rightarrow> (raw_value, False)
              | Raised \<Rightarrow> (raw_value, True))
         | None \<Rightarrow> (raw_value, True)))"

text \<open>
  One iteration of the loop \<^verbatim>\<open>for col_idx in range(15)\<close> of
  \<^verbatim>\<open>process_row_with_binary_masks\<close>, on the state \<open>(result, value_index)\<close>.
  \<open>previous_row\<close> is \<open>None\<close> for Python's \<^verbatim>\<open>None\<close>; an empty list is false as well.
\<close>

definition process_column ::
  "pyrt \<Rightarrow> pyvalue \<Rightarrow> string \<Rightarrow> string \<Rightarrow> pyvalue list option \<Rightarrow> (string \<times> pyvalue) list \<Rightarrow>
   nat \<Rightarrow> pyvalue list \<times> nat \<Rightarrow> pyerror + pyvalue list \<times> nat" where
  "process_column rt c_values r_binary sigma_binary previous_row dictionaries col_idx st =
     (case st of (result, value_index) \<Rightarrow>
      bind_result (mask_bit r_binary col_idx) (\<lambda>r_bit.
      bind_result (mask_bit sigma_binary col_idx) (\<lambda>sigma_bit.
        if r_bit = 1 then
          (case previous_row of
             None \<Rightarrow> Inr (result[col_idx := PyNone], value_index)
           | Some prev \<Rightarrow>
               (if prev = [] then Inr (result[col_idx := PyNone], value_index)
                else if col_idx < length prev then Inr (result[col_idx := prev ! col_idx], value_index)
                else Inl IndexError))
        else if sigma_bit = 1 then Inr (result[col_idx := PyNone], value_index)
        else
          bind_result (py_len c_values) (\<lambda>n.
            if value_index < n then
              bind_result (py_getitem c_values value_index) (\<lambda>raw_value.
                (case resolve_value rt dictionaries (columns ! col_idx) raw_value of
                   (v, advance) \<Rightarrow>
                     Inr (result[col_idx := v], if advance then value_index + 1 else value_index)))
            else Inr (result[col_idx := PyNone], value_index)))))"

fun for_columns ::
  "(nat \<Rightarrow> pyvalue list \<times> nat \<Rightarrow> pyerror + pyvalue list \<times> nat) \<Rightarrow> nat list \<Rightarrow>
   pyvalue list \<times> nat \<Rightarrow> pyerror + pyvalue list \<times> nat" where
  "for_columns body [] st = Inr st"
| "for_columns body (col_idx # cols) st =
     (case body col_idx st of Inl e \<Rightarrow> Inl e | Inr st' \<Rightarrow> for_columns body cols st')"

text \<open>The key of the null mask is the letter O with stroke, U+00D8, two bytes in UTF-8.\<close>

definition key_null_mask :: string where
  "key_null_mask = [CHR 0xC3, CHR 0x98]"

definition process_row_with_binary_masks ::
  "pyrt \<Rightarrow> pyvalue \<Rightarrow> pyvalue list option \<Rightarrow> (string \<times> pyvalue) list \<Rightarrow> pyerror + pyvalue list" where
  "process_row_with_binary_masks rt row_data previous_row dictionaries =
     bind_result (py_get row_data ''C'' (PyList [])) (\<lambda>c_values.
     bind_result (py_get row_data ''R'' (PyInt 0)) (\<lambda>r_value.
     bind_result (py_get row_data key_null_mask (PyInt 0)) (\<lambda>sigma_value.
     bind_result (reverse_binary_16bit r_value) (\<lambda>r_binary.
     bind_result (reverse_binary_16bit sigma_value) (\<lambda>sigma_binary.
     bind_result
       (for_columns (process_column rt c_values r_binary sigma_binary previous_row dictionaries)
          [0..<15] (replicate 15 PyNone, 0))
       (\<lambda>st. Inr (fst st)))))))"

section \<open>Projection to the output record\<close>

record csv_row =
  scrape_datetime :: pyvalue
  date :: pyvalue
  installation :: pyvalue
  oil_production :: pyvalue
  gas_production :: pyvalue
  oil_equivalents_boe :: pyvalue
  operator :: pyvalue
  type :: pyvalue
  estado :: pyvalue
  city :: pyvalue
  atendimento_campo :: pyvalue
  campo :: pyvalue
  quantity :: pyvalue
  code :: pyvalue
  status :: pyvalue

text \<open>\<^verbatim>\<open>x if x else ''\<close> and \<^verbatim>\<open>x if x is not None else ''\<close>.\<close>

definition or_empty :: "pyvalue \<Rightarrow> pyvalue" where
  "or_empty x = (if truthy x then x else PyStr [])"

definition not_none_or_empty :: "pyvalue \<Rightarrow> pyvalue" where
  "not_none_or_empty x = (if x \<noteq> PyNone then x else PyStr [])"

text \<open>The dict literal \<^verbatim>\<open>csv_row\<close> of \<^verbatim>\<open>convert_processed_row_to_csv\<close>, for a row of at least
  15 slots.\<close>

definition mapped_fields :: "pyvalue list \<Rightarrow> pyvalue \<Rightarrow> csv_row" where
  "mapped_fields processed_row timestamp =
     \<lparr> scrape_datetime = timestamp,
       date = or_empty (processed_row ! 0),
       installation = or_empty (processed_row ! 1),
       oil_production = not_none_or_empty (processed_row ! 11),
       gas_production = not_none_or_empty (processed_row ! 12),
       oil_equivalents_boe = not_none_or_empty (processed_row ! 14),
       operator = or_empty (processed_row ! 2),
       type = or_empty (processed_row ! 3),
       estado = or_empty (processed_row ! 4),
       city = or_empty (processed_row ! 5),
       atendimento_campo = or_empty (processed_row ! 6),
       campo = or_empty (processed_row ! 7),
       quantity = not_none_or_empty (processed_row ! 13),
       code = not_none_or_empty (processed_row ! 9),
       status = not_none_or_empty (processed_row ! 10) \<rparr>"

text \<open>\<^verbatim>\<open>convert_processed_row_to_csv\<close>: a subscript beyond the row raises \<^verbatim>\<open>IndexError\<close>; the
  result \<open>None\<close> is Python's \<^verbatim>\<open>None\<close>, a rejected row.\<close>

definition convert_processed_row_to_csv :: "pyvalue list \<Rightarrow> pyvalue \<Rightarrow> pyerror + csv_row option" where
  "convert_processed_row_to_csv processed_row timestamp =
     (if length processed_row < 15 then Inl IndexError
      else if truthy (date (mapped_fields processed_row timestamp))
        then Inr (Some (mapped_fields processed_row timestamp))
      else Inr None)"

section \<open>The batch driver\<close>

text \<open>
  The loop of \<^verbatim>\<open>process_data_with_binary_masks\<close> on the state
  \<open>(processed_rows, csv_data)\<close>; the progress message it prints every 50 rows has no part
  in the result.
\<close>

fun process_data_loop ::
  "pyrt \<Rightarrow> (string \<times> pyvalue) list \<Rightarrow> pyvalue \<Rightarrow> pyvalue list \<Rightarrow>
   pyvalue list list \<times> csv_row list \<Rightarrow> pyerror + pyvalue list list \<times> csv_row list" where
  "process_data_loop rt dictionaries timestamp [] st = Inr st"
| "process_data_loop rt dictionaries timestamp (row_data # rest) st =
     (case st of (processed_rows, csv_data) \<Rightarrow>
      bind_result
        (process_row_with_binary_masks rt row_data
           (if processed_rows = [] then None else Some (last processed_rows)) dictionaries)
        (\<lambda>processed_row.
      bind_result (convert_processed_row_to_csv processed_row timestamp) (\<lambda>csv_row.
        process_data_loop rt dictionaries timestamp rest
          (processed_rows @ [processed_row],
           case csv_row of None \<Rightarrow> csv_data | Some r \<Rightarrow> csv_data @ [r]))))"

definition process_data_with_binary_masks ::
  "pyrt \<Rightarrow> pyvalue list \<Rightarrow> (string \<times> pyvalue) list \<Rightarrow> pyvalue \<Rightarrow> pyerror + csv_row list" where
  "process_data_with_binary_masks rt data_rows dictionaries timestamp =
     bind_result (process_data_loop rt dictionaries timestamp data_rows ([], []))
       (\<lambda>st. Inr (snd st))"

section \<open>Locating the rows\<close>

text \<open>
  The nested function \<^verbatim>\<open>find_rows\<close> appends to the list \<^verbatim>\<open>data_rows\<close> of the enclosing
  call; here the list is passed and returned. The two loops are \<open>find_rows_values\<close> (over
  \<^verbatim>\<open>obj.values()\<close>) and \<open>find_rows_items\<close>.
\<close>

fun find_rows :: "pyvalue \<Rightarrow> pyvalue list \<Rightarrow> pyvalue list"
  and find_rows_values :: "(string \<times> pyvalue) list \<Rightarrow> pyvalue list \<Rightarrow> pyvalue list"
  and find_rows_items :: "pyvalue list \<Rightarrow> pyvalue list \<Rightarrow> pyvalue list" where
  "find_rows (PyDict kvs) data_rows =
     find_rows_values kvs
       (case map_of kvs ''C'' of
          Some (PyList c) \<Rightarrow> data_rows @ [PyDict kvs]
        | _ \<Rightarrow> data_rows)"
| "find_rows (PyList items) data_rows = find_rows_items items data_rows"
| "find_rows PyNone data_rows = data_rows"
| "find_rows (PyBool b) data_rows = data_rows"
| "find_rows (PyInt n) data_rows = data_rows"
| "find_rows (PyFloat f) data_rows = data_rows"
| "find_rows (PyStr s) data_rows = data_rows"
| "find_rows_values [] data_rows = data_rows"
| "find_rows_values (kv # kvs) data_rows = find_rows_values kvs (find_rows (snd kv) data_rows)"
| "find_rows_items [] data_rows = data_rows"
| "find_rows_items (item # items) data_rows = find_rows_items items (find_rows item data_rows)"

text \<open>The filter \<^verbatim>\<open>row.get(null mask) is not None or row.get('R') is not None\<close>;
  \<^verbatim>\<open>find_rows\<close> collects dicts only, so the last equation is never used.\<close>

fun has_mask :: "pyvalue \<Rightarrow> bool" where
  "has_mask (PyDict kvs) =
     ((case map_of kvs key_null_mask of Some v \<Rightarrow> v | None \<Rightarrow> PyNone) \<noteq> PyNone \<or>
      (case map_of kvs ''R'' of Some v \<Rightarrow> v | None \<Rightarrow> PyNone) \<noteq> PyNone)"
| "has_mask v = False"

text \<open>\<^verbatim>\<open>extract_data_from_json\<close>, returning \<open>(filtered_rows, dictionaries, timestamp)\<close>.\<close>

definition extract_data_from_json ::
  "pyvalue \<Rightarrow> pyerror + pyvalue list \<times> (string \<times> pyvalue) list \<times> pyvalue" where
  "extract_data_from_json json_data =
     bind_result (py_get json_data ''results'' (PyList [])) (\<lambda>results.
     if \<not> truthy results then Inl (ValueError ''No results found in JSON data'')
     else
     bind_result (py_getitem results 0) (\<lambda>results0.
     bind_result (py_get results0 ''result'' (PyDict [])) (\<lambda>result.
     bind_result (py_get result ''data'' (PyDict [])) (\<lambda>result_data.
     bind_result (py_get result_data ''timestamp'' (PyStr [])) (\<lambda>timestamp.
     bind_result (py_get result_data ''dsr'' (PyDict [])) (\<lambda>dsr.
     bind_result (py_get dsr ''DS'' (PyList [])) (\<lambda>ds_list.
     if \<not> truthy ds_list then Inl (ValueError ''No DS data found in JSON structure'')
     else
     bind_result (py_getitem ds_list 0) (\<lambda>ds0.
     bind_result (py_get ds0 ''ValueDicts'' (PyDict [])) (\<lambda>value_dicts.
     bind_result (py_get value_dicts ''D0'' (PyList [])) (\<lambda>d0.
     bind_result (py_get value_dicts ''D1'' (PyList [])) (\<lambda>d1.
     bind_result (py_get value_dicts ''D2'' (PyList [])) (\<lambda>d2.
     bind_result (py_get value_dicts ''D3'' (PyList [])) (\<lambda>d3.
     bind_result (py_get value_dicts ''D4'' (PyList [])) (\<lambda>d4.
     bind_result (py_get value_dicts ''D5'' (PyList [])) (\<lambda>d5.
     bind_result (py_get value_dicts ''D6'' (PyList [])) (\<lambda>d6.
     bind_result (py_get value_dicts ''D7'' (PyList [])) (\<lambda>d7.
     bind_result (py_get value_dicts ''D8'' (PyList [])) (\<lambda>d8.
     bind_result (py_get value_dicts ''D9'' (PyList [])) (\<lambda>d9.
       Inr (filter has_mask (find_rows json_data []),
            [(''G1'', d0), (''G2'', d1), (''G3'', d2), (''G4'', d3), (''G5'', d4),
             (''G6'', d5), (''G7'', d6), (''G8'', d7), (''G9'', d8), (''G10'', d9)],
            timestamp))))))))))))))))))))"

text \<open>
  \<^verbatim>\<open>process_json_to_csv\<close> up to the rows it hands to the CSV writer; the comprehension
  that drops \<^verbatim>\<open>None\<close> entries keeps every record, since the driver collects none.
\<close>

definition process_json_to_csv :: "pyrt \<Rightarrow> pyvalue \<Rightarrow> pyerror + csv_row list" where
  "process_json_to_csv rt json_data =
     bind_result (extract_data_from_json json_data) (\<lambda>extracted.
       (case extracted of (data_rows, dictionaries, timestamp) \<Rightarrow>
          process_data_with_binary_masks rt data_rows dictionaries timestamp))"

section \<open>Notions used in the statements\<close>

text \<open>The bits \<^verbatim>\<open>r_bit\<close> and \<^verbatim>\<open>sigma_bit\<close> that the loop of
  \<^verbatim>\<open>process_row_with_binary_masks\<close> reads for a column of a row.\<close>

definition r_bit :: "pyvalue \<Rightarrow> nat \<Rightarrow> pyerror + nat" where
  "r_bit row_data col_idx =
     bind_result (py_get row_data ''R'' (PyInt 0)) (\<lambda>r_value.
     bind_result (reverse_binary_16bit r_value) (\<lambda>r_binary. mask_bit r_binary col_idx))"

definition sigma_bit :: "pyvalue \<Rightarrow> nat \<Rightarrow> pyerror + nat" where
  "sigma_bit row_data col_idx =
     bind_result (py_get row_data key_null_mask (PyInt 0)) (\<lambda>sigma_value.
     bind_result (reverse_binary_16bit sigma_value) (\<lambda>sigma_binary. mask_bit sigma_binary col_idx))"

text \<open>The previous row that the batch driver passes: none, or a decoded row, which has
  15 slots.\<close>

definition row_shaped :: "pyvalue list option \<Rightarrow> bool" where
  "row_shaped previous_row = (case previous_row of None \<Rightarrow> True | Some prev \<Rightarrow> length prev = 15)"

text \<open>
  The specification's reading of the row locator. \<open>depth_first_nodes\<close> lists all nodes of
  a tree in depth-first encounter order: a node before the nodes below it, the values of
  a mapping and the items of a sequence from first to last. A node is a row candidate
  when it is a mapping with a field \<^verbatim>\<open>C\<close> that is a sequence.
\<close>

fun depth_first_nodes :: "pyvalue \<Rightarrow> pyvalue list"
  and nodes_of_values :: "(string \<times> pyvalue) list \<Rightarrow> pyvalue list"
  and nodes_of_items :: "pyvalue list \<Rightarrow> pyvalue list" where
  "depth_first_nodes (PyDict kvs) = PyDict kvs # nodes_of_values kvs"
| "depth_first_nodes (PyList items) = PyList items # nodes_of_items items"
| "depth_first_nodes PyNone = [PyNone]"
| "depth_first_nodes (PyBool b) = [PyBool b]"
| "depth_first_nodes (PyInt n) = [PyInt n]"
| "depth_first_nodes (PyFloat f) = [PyFloat f]"
| "depth_first_nodes (PyStr s) = [PyStr s]"
| "nodes_of_values [] = []"
| "nodes_of_values (kv # kvs) = depth_first_nodes (snd kv) @ nodes_of_values kvs"
| "nodes_of_items [] = []"
| "nodes_of_items (item # items) = depth_first_nodes item @ nodes_of_items items"

fun is_row_candidate :: "pyvalue \<Rightarrow> bool" where
  "is_row_candidate (PyDict kvs) = (case map_of kvs ''C'' of Some (PyList c) \<Rightarrow> True | _ \<Rightarrow> False)"
| "is_row_candidate v = False"



text \<open>Data of the examples: dictionaries for the ten columns \<open>G1\<close> to \<open>G10\<close>, and a decoded
  row.\<close>

definition example_dictionaries :: "(string \<times> pyvalue) list" where
  "example_dictionaries =
     [(''G1'', PyList [PyStr ''Platform-A'', PyStr ''Platform-B'']),
      (''G2'', PyList [PyStr ''Op-A'']),
      (''G3'', PyList []), (''G4'', PyList []), (''G5'', PyList []), (''G6'', PyList []),
      (''G7'', PyList []), (''G8'', PyList []), (''G9'', PyList []), (''G10'', PyList [])]"

definition example_previous_row :: "pyvalue list" where
  "example_previous_row =
     [PyStr ''2024-01-05'', PyStr ''Platform-A'', PyStr ''Op-A'', PyNone, PyNone, PyNone, PyNone,
      PyNone, PyNone, PyNone, PyNone, PyInt 10, PyInt 20, PyInt 30, PyInt 40]"

text \<open>
  Three rows: the first takes a date and the index 0 of its installation from \<^verbatim>\<open>C\<close>; the
  second has a null date and repeats the installation; the third takes a date and repeats
  the installation. The null mask 32764 has the bits 2 to 14, 32765 the bit 0 as well.
\<close>

definition example_rows :: "pyvalue list" where
  "example_rows =
     [PyDict [(''C'', PyList [PyInt 20240105, PyInt 0]), (key_null_mask, PyInt 32764)],
      PyDict [(''C'', PyList []), (''R'', PyInt 2), (key_null_mask, PyInt 32765)],
      PyDict [(''C'', PyList [PyInt 20240106]), (''R'', PyInt 2), (key_null_mask, PyInt 32764)]]"

text \<open>A response with these rows after a summary row that has no mask.\<close>

definition example_json :: pyvalue where
  "example_json =
     PyDict [(''results'', PyList [PyDict [(''result'', PyDict [(''data'', PyDict
       [(''timestamp'', PyStr ''2024-02-01T00:00:00''),
        (''dsr'', PyDict [(''DS'', PyList [PyDict
          [(''PH'', PyList [PyDict [(''DM0'', PyList (PyDict [(''C'', PyList [PyInt 3])] # example_rows))]]),
           (''ValueDicts'', PyDict
              [(''D0'', PyList [PyStr ''Platform-A'', PyStr ''Platform-B'']),
               (''D1'', PyList [PyStr ''Op-A''])])
          ]])])
       ])])]])]"



declare bin_digits.simps [simp del] dec_digits.simps [simp del]

section \<open>Properties\<close>

subsection \<open>The projection\<close>





text \<open>
  C10. Among the fields that are not measures, \<open>code\<close> (slot 9) and \<open>status\<close> (slot 10) keep
  every value other than \<open>None\<close>, a zero or an empty string included, and are the empty
  string for \<open>None\<close>; \<open>date\<close>, \<open>installation\<close>, \<open>operator\<close>, \<open>type\<close>, \<open>estado\<close>, \<open>city\<close>,
  \<open>atendimento_campo\<close> and \<open>campo\<close> are the empty string for every false slot value
  (\<open>None\<close>, zero, the empty string and the other false values alike).
\<close>

theorem falsy_slots_asymmetry:
  "(row ! 9 \<noteq> PyNone \<longrightarrow> code (mapped_fields row ts) = row ! 9) \<and>
   (row ! 10 \<noteq> PyNone \<longrightarrow> status (mapped_fields row ts) = row ! 10) \<and>
   (row ! 9 = PyNone \<longrightarrow> code (mapped_fields row ts) = PyStr []) \<and>
   (row ! 10 = PyNone \<longrightarrow> status (mapped_fields row ts) = PyStr []) \<and>
   (\<not> truthy (row ! 0) \<longrightarrow> date (mapped_fields row ts) = PyStr []) \<and>
   (\<not> truthy (row ! 1) \<longrightarrow> installation (mapped_fields row ts) = PyStr []) \<and>
   (\<not> truthy (row ! 2) \<longrightarrow> operator (mapped_fields row ts) = PyStr []) \<and>
   (\<not> truthy (row ! 3) \<longrightarrow> type (mapped_fields row ts) = PyStr []) \<and>
   (\<not> truthy (row ! 4) \<longrightarrow> estado (mapped_fields row ts) = PyStr []) \<and>
   (\<not> truthy (row ! 5) \<longrightarrow> city (mapped_fields row ts) = PyStr []) \<and>
   (\<not> truthy (row ! 6) \<longrightarrow> atendimento_campo (mapped_fields row ts) = PyStr []) \<and>
   (\<not> truthy (row ! 7) \<longrightarrow> campo (mapped_fields row ts) = PyStr [])"
  by (simp add: mapped_fields_def or_empty_def not_none_or_empty_def)

text \<open>A row with the integer zero in slots 0, 1 and 9 and the empty string in slot 10.\<close>

theorem falsy_slots_asymmetry_witness:
  "code (mapped_fields
      [PyInt 0, PyInt 0, PyStr [], PyNone, PyBool False, PyFloat (Finite 0), PyList [], PyDict [],
       PyNone, PyInt 0, PyStr [], PyNone, PyNone, PyNone, PyNone] (PyStr ''t'')) = PyInt 0 \<and>
   status (mapped_fields
      [PyInt 0, PyInt 0, PyStr [], PyNone, PyBool False, PyFloat (Finite 0), PyList [], PyDict [],
       PyNone, PyInt 0, PyStr [], PyNone, PyNone, PyNone, PyNone] (PyStr ''t'')) = PyStr [] \<and>
   date (mapped_fields
      [PyInt 0, PyInt 0, PyStr [], PyNone, PyBool False, PyFloat (Finite 0), PyList [], PyDict [],
       PyNone, PyInt 0, PyStr [], PyNone, PyNone, PyNone, PyNone] (PyStr ''t'')) = PyStr [] \<and>
   installation (mapped_fields
      [PyInt 0, PyInt 0, PyStr [], PyNone, PyBool False, PyFloat (Finite 0), PyList [], PyDict [],
       PyNone, PyInt 0, PyStr [], PyNone, PyNone, PyNone, PyNone] (PyStr ''t'')) = PyStr [] \<and>
   city (mapped_fields
      [PyInt 0, PyInt 0, PyStr [], PyNone, PyBool False, PyFloat (Finite 0), PyList [], PyDict [],
       PyNone, PyInt 0, PyStr [], PyNone, PyNone, PyNone, PyNone] (PyStr ''t'')) = PyStr []"
  using falsy_slots_asymmetry [of
      "[PyInt 0, PyInt 0, PyStr [], PyNone, PyBool False, PyFloat (Finite 0), PyList [], PyDict [],
       PyNone, PyInt 0, PyStr [], PyNone, PyNone, PyNone, PyNone]" "PyStr ''t''"]
  by simp

subsection \<open>Reading the masks\<close>








subsection \<open>The loop over the columns\<close>

lemma bind_result_Inr:
  "bind_result m f = Inr y \<longleftrightarrow> (\<exists>x. m = Inr x \<and> f x = Inr y)"
  by (cases m) (simp_all add: bind_result_def)

lemma bind_result_simps:
  "bind_result (Inr x) f = f x" "bind_result (Inl e) f = Inl e"
  by (simp_all add: bind_result_def)

lemma process_column_shape:
  assumes "process_column rt c_values r_binary sigma_binary previous_row dictionaries col_idx
             (result, value_index) = Inr st'"
  shows "\<exists>v. fst st' = result[col_idx := v]"
  using assms
  by (auto simp: process_column_def bind_result_Inr case_prod_beta
           split: if_splits option.splits)

lemma process_column_frame:
  assumes "process_column rt c_values r_binary sigma_binary previous_row dictionaries col_idx st = Inr st'"
  shows "length (fst st') = length (fst st) \<and> (\<forall>j. j \<noteq> col_idx \<longrightarrow> fst st' ! j = fst st ! j)"
proof -
  obtain result value_index where st: "st = (result, value_index)" by (cases st)
  from process_column_shape[OF assms[unfolded st]] obtain v where "fst st' = result[col_idx := v]" ..
  then show ?thesis by (simp add: st)
qed

lemma for_columns_frame:
  assumes "for_columns (process_column rt c_values r_binary sigma_binary previous_row dictionaries)
             cols st = Inr st'"
  shows "length (fst st') = length (fst st) \<and> (\<forall>j. j \<notin> set cols \<longrightarrow> fst st' ! j = fst st ! j)"
  using assms
proof (induction cols arbitrary: st)
  case Nil
  then show ?case by simp
next
  case (Cons c cols)
  from Cons.prems obtain s where
    s: "process_column rt c_values r_binary sigma_binary previous_row dictionaries c st = Inr s" and
    rest: "for_columns (process_column rt c_values r_binary sigma_binary previous_row dictionaries)
             cols s = Inr st'"
    by (auto split: sum.splits)
  from process_column_frame[OF s] Cons.IH[OF rest] show ?case by auto
qed

lemma for_columns_slot:
  assumes "for_columns (process_column rt c_values r_binary sigma_binary previous_row dictionaries)
             cols st = Inr st'"
    and "distinct cols" and "i \<in> set cols"
  shows "\<exists>s1 s2. process_column rt c_values r_binary sigma_binary previous_row dictionaries i s1 = Inr s2 \<and>
                  length (fst s1) = length (fst st) \<and> fst st' ! i = fst s2 ! i"
  using assms
proof (induction cols arbitrary: st)
  case Nil
  then show ?case by simp
next
  case (Cons c cols)
  from Cons.prems(1) obtain s where
    s: "process_column rt c_values r_binary sigma_binary previous_row dictionaries c st = Inr s" and
    rest: "for_columns (process_column rt c_values r_binary sigma_binary previous_row dictionaries)
             cols s = Inr st'"
    by (auto split: sum.splits)
  show ?case
  proof (cases "c = i")
    case True
    with Cons.prems(2) have "i \<notin> set cols" by simp
    with for_columns_frame[OF rest] have "fst st' ! i = fst s ! i" by blast
    with s True show ?thesis by blast
  next
    case False
    with Cons.prems have "distinct cols" "i \<in> set cols" by auto
    from Cons.IH[OF rest this] process_column_frame[OF s] show ?thesis by auto
  qed
qed

lemma process_row_slot:
  assumes "process_row_with_binary_masks rt row_data previous_row dictionaries = Inr result"
    and "col_idx < 15"
  shows "\<exists>c_values r_value sigma_value r_binary sigma_binary s1 s2.
           py_get row_data ''C'' (PyList []) = Inr c_values \<and>
           py_get row_data ''R'' (PyInt 0) = Inr r_value \<and>
           py_get row_data key_null_mask (PyInt 0) = Inr sigma_value \<and>
           reverse_binary_16bit r_value = Inr r_binary \<and>
           reverse_binary_16bit sigma_value = Inr sigma_binary \<and>
           process_column rt c_values r_binary sigma_binary previous_row dictionaries col_idx s1 = Inr s2 \<and>
           length (fst s1) = 15 \<and> length result = 15 \<and> result ! col_idx = fst s2 ! col_idx"
proof -
  from assms(1) obtain c_values r_value sigma_value r_binary sigma_binary st where
    gets: "py_get row_data ''C'' (PyList []) = Inr c_values"
      "py_get row_data ''R'' (PyInt 0) = Inr r_value"
      "py_get row_data key_null_mask (PyInt 0) = Inr sigma_value"
      "reverse_binary_16bit r_value = Inr r_binary"
      "reverse_binary_16bit sigma_value = Inr sigma_binary"
    and loop: "for_columns (process_column rt c_values r_binary sigma_binary previous_row dictionaries)
                 [0..<15] (replicate 15 PyNone, 0) = Inr st"
    and result: "result = fst st"
    unfolding process_row_with_binary_masks_def bind_result_Inr by auto
  have "distinct [0..<15]" "col_idx \<in> set [0..<15]" using assms(2) by simp_all
  from for_columns_slot[OF loop this]
  obtain s1 s2 where
    "process_column rt c_values r_binary sigma_binary previous_row dictionaries col_idx s1 = Inr s2"
    "length (fst s1) = 15" "fst st ! col_idx = fst s2 ! col_idx"
    by auto
  moreover from for_columns_frame[OF loop] have "length (fst st) = 15" by simp
  ultimately show ?thesis using gets result by blast
qed

text \<open>
  C1. Whenever a row is decoded and the repeat bit that the loop reads for a column
  \<open>col_idx < 15\<close> is 1, the slot of the decoded row is the value of the same slot of the
  previous decoded row, and \<open>None\<close> when there is no previous row. Nothing is assumed
  about the null mask: its bit for the column may be 0 or 1.
\<close>

theorem repeat_bit_inherits:
  assumes "process_row_with_binary_masks rt row_data previous_row dictionaries = Inr result"
    and "col_idx < 15"
    and "r_bit row_data col_idx = Inr 1"
    and "row_shaped previous_row"
  shows "result ! col_idx = (case previous_row of None \<Rightarrow> PyNone | Some prev \<Rightarrow> prev ! col_idx)"
proof -
  from process_row_slot[OF assms(1,2)] obtain c_values r_value sigma_value r_binary sigma_binary s1 s2
    where gets: "py_get row_data ''R'' (PyInt 0) = Inr r_value"
      "reverse_binary_16bit r_value = Inr r_binary"
    and step: "process_column rt c_values r_binary sigma_binary previous_row dictionaries col_idx s1 = Inr s2"
    and len: "length (fst s1) = 15" and res: "result ! col_idx = fst s2 ! col_idx"
    by blast
  from assms(3) gets have rb: "mask_bit r_binary col_idx = Inr 1"
    by (simp add: r_bit_def bind_result_simps)
  obtain res vi where s1: "s1 = (res, vi)" by (cases s1)
  from step rb s1 obtain sb where "mask_bit sigma_binary col_idx = Inr sb"
    by (auto simp: process_column_def bind_result_Inr)
  with step rb s1 assms(2,4) len
  have "fst s2 ! col_idx = (case previous_row of None \<Rightarrow> PyNone | Some prev \<Rightarrow> prev ! col_idx)"
    by (auto simp: process_column_def bind_result_simps row_shaped_def split: option.splits if_splits)
  with res show ?thesis by simp
qed

text \<open>A row with \<open>R = 3\<close> and a null mask of 2: column 1 has both bits set and takes the
  value of the previous row; without a previous row it is \<open>None\<close>.\<close>

theorem repeat_bit_inherits_witness:
  "\<forall>rt.
     r_bit (PyDict [(''C'', PyList [PyInt 7]), (''R'', PyInt 3), (key_null_mask, PyInt 2)]) 1 = Inr 1 \<and>
     sigma_bit (PyDict [(''C'', PyList [PyInt 7]), (''R'', PyInt 3), (key_null_mask, PyInt 2)]) 1 = Inr 1 \<and>
     process_row_with_binary_masks rt
       (PyDict [(''C'', PyList [PyInt 7]), (''R'', PyInt 3), (key_null_mask, PyInt 2)])
       (Some example_previous_row) example_dictionaries =
     Inr [PyStr ''2024-01-05'', PyStr ''Platform-A'', PyStr ''Index_7_OutOfRange'', PyNone, PyNone,
          PyNone, PyNone, PyNone, PyNone, PyNone, PyNone, PyNone, PyNone, PyNone, PyNone] \<and>
     [PyStr ''2024-01-05'', PyStr ''Platform-A'', PyStr ''Index_7_OutOfRange'', PyNone, PyNone,
          PyNone, PyNone, PyNone, PyNone, PyNone, PyNone, PyNone, PyNone, PyNone, PyNone] ! 1 =
       example_previous_row ! 1 \<and>
     process_row_with_binary_masks rt
       (PyDict [(''C'', PyList [PyInt 7]), (''R'', PyInt 3), (key_null_mask, PyInt 2)])
       None example_dictionaries =
     Inr [PyNone, PyNone, PyStr ''Index_7_OutOfRange'', PyNone, PyNone,
          PyNone, PyNone, PyNone, PyNone, PyNone, PyNone, PyNone, PyNone, PyNone, PyNone]"
proof (intro allI)
  fix rt
  let ?row = "PyDict [(''C'', PyList [PyInt 7]), (''R'', PyInt 3), (key_null_mask, PyInt 2)]"
  let ?res = "[PyStr ''2024-01-05'', PyStr ''Platform-A'', PyStr ''Index_7_OutOfRange'', PyNone, PyNone,
          PyNone, PyNone, PyNone, PyNone, PyNone, PyNone, PyNone, PyNone, PyNone, PyNone]"
  have rb: "r_bit ?row 1 = Inr 1" by code_simp
  have sb: "sigma_bit ?row 1 = Inr 1" by code_simp
  have run: "process_row_with_binary_masks rt ?row (Some example_previous_row) example_dictionaries =
      Inr ?res"
    by code_simp
  have run0: "process_row_with_binary_masks rt ?row None example_dictionaries =
      Inr [PyNone, PyNone, PyStr ''Index_7_OutOfRange'', PyNone, PyNone,
          PyNone, PyNone, PyNone, PyNone, PyNone, PyNone, PyNone, PyNone, PyNone, PyNone]"
    by code_simp
  have shaped: "row_shaped (Some example_previous_row)"
    by (simp add: row_shaped_def example_previous_row_def)
  have "?res ! 1 = example_previous_row ! 1"
    using repeat_bit_inherits[OF run _ rb shaped] by simp
  with rb sb run run0
  show "r_bit ?row 1 = Inr 1 \<and> sigma_bit ?row 1 = Inr 1 \<and>
     process_row_with_binary_masks rt ?row (Some example_previous_row) example_dictionaries = Inr ?res \<and>
     ?res ! 1 = example_previous_row ! 1 \<and>
     process_row_with_binary_masks rt ?row None example_dictionaries =
     Inr [PyNone, PyNone, PyStr ''Index_7_OutOfRange'', PyNone, PyNone,
          PyNone, PyNone, PyNone, PyNone, PyNone, PyNone, PyNone, PyNone, PyNone, PyNone]"
    by (intro conjI)
qed

subsection \<open>Dictionary-backed columns\<close>

lemma digit_char_cases:
  assumes "d < 10"
  shows "digit_value (digit_char d) = d \<and> is_ascii_digit (digit_char d)"
proof -
  from assms have "d \<in> {0, 1, 2, 3, 4, 5, 6, 7, 8, 9}" by auto
  then show ?thesis
    by (auto simp: digit_char_def digit_value_def is_ascii_digit_def)
qed

lemma dec_value_snoc: "dec_value (s @ [c]) = 10 * dec_value s + int (digit_value c)"
  by (simp add: dec_value_def)

lemma dec_value_dec_digits: "0 \<le> n \<Longrightarrow> dec_value (dec_digits n) = n"
proof (induction n rule: dec_digits.induct)
  case (1 n)
  show ?case
  proof (cases "n < 10")
    case True
    with "1.prems" have "nat n < 10" by simp
    with "1.prems" show ?thesis
      using True by (subst dec_digits.simps) (simp add: dec_value_def digit_char_cases)
  next
    case False
    have digit: "nat (n mod 10) < 10" by simp
    have "dec_value (dec_digits n) =
            10 * dec_value (dec_digits (n div 10)) + int (digit_value (digit_char (nat (n mod 10))))"
      using False by (subst dec_digits.simps) (simp add: dec_value_snoc)
    also have "\<dots> = 10 * (n div 10) + n mod 10"
      using "1.IH"[OF False] "1.prems" digit_char_cases[OF digit] by simp
    finally show ?thesis by simp
  qed
qed

lemma dec_digits_all_digits: "list_all is_ascii_digit (dec_digits n)"
proof (induction n rule: dec_digits.induct)
  case (1 n)
  show ?case
  proof (cases "n < 10")
    case True
    then have "nat n < 10" by simp
    with True show ?thesis by (subst dec_digits.simps) (simp add: digit_char_cases)
  next
    case False
    have "nat (n mod 10) < 10" by simp
    with False "1.IH" show ?thesis by (subst dec_digits.simps) (simp add: digit_char_cases)
  qed
qed

lemma dec_digits_inject: "0 \<le> m \<Longrightarrow> 0 \<le> n \<Longrightarrow> dec_digits m = dec_digits n \<Longrightarrow> m = n"
  using dec_value_dec_digits by metis

lemma minus_not_first_digit: "CHR ''-'' # ds \<noteq> dec_digits n"
proof
  assume "CHR ''-'' # ds = dec_digits n"
  with dec_digits_all_digits[of n] have "list_all is_ascii_digit (CHR ''-'' # ds)"
    by simp
  then have "is_ascii_digit CHR ''-''"
    by simp
  then show False by (simp add: is_ascii_digit_def)
qed

lemma str_of_int_inject:
  assumes "str_of_int k = str_of_int k'"
  shows "k = k'"
proof (cases "k < 0")
  case True
  show ?thesis
  proof (cases "k' < 0")
    case True
    with \<open>k < 0\<close> assms have "dec_digits (- k) = dec_digits (- k')"
      by (simp add: str_of_int_def)
    with True \<open>k < 0\<close> have "- k = - k'" by (intro dec_digits_inject) simp_all
    then show ?thesis by simp
  next
    case False
    with \<open>k < 0\<close> assms minus_not_first_digit[of "dec_digits (- k)" k'] show ?thesis
      by (simp add: str_of_int_def)
  qed
next
  case False
  show ?thesis
  proof (cases "k' < 0")
    case True
    with False assms minus_not_first_digit[of "dec_digits (- k')" k] show ?thesis
      by (simp add: str_of_int_def)
  next
    case nonneg: False
    with False assms have "dec_digits k = dec_digits k'"
      by (simp add: str_of_int_def)
    with False nonneg show ?thesis by (intro dec_digits_inject) simp_all
  qed
qed

lemma out_of_range_inject: "out_of_range k = out_of_range k' \<Longrightarrow> k = k'"
  by (simp add: out_of_range_def str_of_int_inject)

lemma ascii_digit_is_ascii: "list_all is_ascii_digit s \<Longrightarrow> list_all (\<lambda>c. (of_char c :: nat) < 128) s"
  by (induction s) (auto simp: is_ascii_digit_def)

lemma coerce_index_digits:
  "s \<noteq> [] \<Longrightarrow> list_all is_ascii_digit s \<Longrightarrow> coerce_index rt (PyStr s) = Index (dec_value s)"
  by (simp add: py_isdigit_def py_int_of_str_def ascii_digit_is_ascii)


lemma process_column_consumes:
  assumes "mask_bit r_binary col_idx = Inr 0" and "mask_bit sigma_binary col_idx = Inr 0"
    and "py_len c_values = Inr n" and "value_index < n"
    and "py_getitem c_values value_index = Inr raw_value"
  shows "process_column rt c_values r_binary sigma_binary previous_row dictionaries col_idx
           (result, value_index) =
         Inr (result[col_idx := fst (resolve_value rt dictionaries (columns ! col_idx) raw_value)],
              if snd (resolve_value rt dictionaries (columns ! col_idx) raw_value)
              then value_index + 1 else value_index)"
  using assms by (simp add: process_column_def bind_result_simps case_prod_beta)





subsection \<open>The batch driver\<close>

lemma truthy_or_empty: "truthy (or_empty x) = truthy x"
  by (simp add: or_empty_def)

lemma or_empty_truthy: "truthy x \<Longrightarrow> or_empty x = x"
  by (simp add: or_empty_def)

lemma convert_processed_row_to_csv_Inr:
  "convert_processed_row_to_csv processed_row timestamp = Inr csv_row \<longleftrightarrow>
     15 \<le> length processed_row \<and>
     csv_row = (if truthy (processed_row ! 0) then Some (mapped_fields processed_row timestamp) else None)"
  by (auto simp: convert_processed_row_to_csv_def mapped_fields_def truthy_or_empty)

lemma process_data_loop_decoded:
  assumes "process_data_loop rt dictionaries timestamp rows (processed_rows, csv_data) =
             Inr (processed_rows', csv_data')"
  shows "\<exists>decoded. length decoded = length rows \<and> processed_rows' = processed_rows @ decoded \<and>
           (\<forall>n<length rows.
              process_row_with_binary_masks rt (rows ! n)
                (if processed_rows @ take n decoded = [] then None
                 else Some (last (processed_rows @ take n decoded))) dictionaries =
              Inr (decoded ! n)) \<and>
           csv_data' = csv_data @
             map (\<lambda>row. mapped_fields row timestamp) (filter (\<lambda>row. truthy (row ! 0)) decoded)"
  using assms
proof (induction rows arbitrary: processed_rows csv_data)
  case Nil
  then show ?case by simp
next
  case (Cons row_data rest)
  let ?prev = "if processed_rows = [] then None else Some (last processed_rows)"
  from Cons.prems obtain processed_row csv_row where
    dec: "process_row_with_binary_masks rt row_data ?prev dictionaries = Inr processed_row" and
    conv: "convert_processed_row_to_csv processed_row timestamp = Inr csv_row" and
    loop: "process_data_loop rt dictionaries timestamp rest
             (processed_rows @ [processed_row],
              case csv_row of None \<Rightarrow> csv_data | Some r \<Rightarrow> csv_data @ [r]) =
           Inr (processed_rows', csv_data')"
    by (auto simp: bind_result_Inr)
  from Cons.IH[OF loop] obtain decoded where
    len: "length decoded = length rest" and
    rows': "processed_rows' = (processed_rows @ [processed_row]) @ decoded" and
    steps: "\<forall>n<length rest.
              process_row_with_binary_masks rt (rest ! n)
                (if (processed_rows @ [processed_row]) @ take n decoded = [] then None
                 else Some (last ((processed_rows @ [processed_row]) @ take n decoded))) dictionaries =
              Inr (decoded ! n)" and
    csv: "csv_data' = (case csv_row of None \<Rightarrow> csv_data | Some r \<Rightarrow> csv_data @ [r]) @
             map (\<lambda>row. mapped_fields row timestamp) (filter (\<lambda>row. truthy (row ! 0)) decoded)"
    by blast
  have "\<forall>n<length (row_data # rest).
          process_row_with_binary_masks rt ((row_data # rest) ! n)
            (if processed_rows @ take n (processed_row # decoded) = [] then None
             else Some (last (processed_rows @ take n (processed_row # decoded)))) dictionaries =
          Inr ((processed_row # decoded) ! n)"
  proof (intro allI impI)
    fix n assume n: "n < length (row_data # rest)"
    show "process_row_with_binary_masks rt ((row_data # rest) ! n)
            (if processed_rows @ take n (processed_row # decoded) = [] then None
             else Some (last (processed_rows @ take n (processed_row # decoded)))) dictionaries =
          Inr ((processed_row # decoded) ! n)"
    proof (cases n)
      case 0
      with dec show ?thesis by (cases "processed_rows = []") simp_all
    next
      case (Suc m)
      with n have "m < length rest" by simp
      with steps Suc show ?thesis by simp
    qed
  qed
  moreover have "csv_data' = csv_data @
      map (\<lambda>row. mapped_fields row timestamp)
        (filter (\<lambda>row. truthy (row ! 0)) (processed_row # decoded))"
    using csv conv by (auto simp: convert_processed_row_to_csv_Inr)
  ultimately show ?case
    using len rows' by (intro exI[of _ "processed_row # decoded"]) simp
qed

lemma last_take_nth:
  assumes "0 < n" and "n \<le> length xs"
  shows "last (take n xs) = xs ! (n - 1)"
proof -
  from assms have nonempty: "take n xs \<noteq> []" by auto
  from assms have len: "length (take n xs) = n" by simp
  have "last (take n xs) = take n xs ! (length (take n xs) - 1)"
    using nonempty by (rule last_conv_nth)
  also have "\<dots> = take n xs ! (n - 1)" by (simp only: len)
  also have "\<dots> = xs ! (n - 1)" using assms by simp
  finally show ?thesis .
qed

lemma process_data_decoded:
  assumes "process_data_with_binary_masks rt data_rows dictionaries timestamp = Inr csv_data"
  shows "\<exists>decoded. length decoded = length data_rows \<and>
           (\<forall>n<length data_rows.
              process_row_with_binary_masks rt (data_rows ! n)
                (if n = 0 then None else Some (decoded ! (n - 1))) dictionaries =
              Inr (decoded ! n)) \<and>
           csv_data =
             map (\<lambda>row. mapped_fields row timestamp) (filter (\<lambda>row. truthy (row ! 0)) decoded)"
proof -
  from assms obtain processed_rows where
    "process_data_loop rt dictionaries timestamp data_rows ([], []) = Inr (processed_rows, csv_data)"
    by (auto simp: process_data_with_binary_masks_def bind_result_Inr)
  from process_data_loop_decoded[OF this] obtain decoded where
    len: "length decoded = length data_rows" and
    steps: "\<forall>n<length data_rows.
              process_row_with_binary_masks rt (data_rows ! n)
                (if [] @ take n decoded = [] then None
                 else Some (last ([] @ take n decoded))) dictionaries = Inr (decoded ! n)" and
    csv: "csv_data = [] @
             map (\<lambda>row. mapped_fields row timestamp) (filter (\<lambda>row. truthy (row ! 0)) decoded)"
    by blast
  have "\<forall>n<length data_rows.
          process_row_with_binary_masks rt (data_rows ! n)
            (if n = 0 then None else Some (decoded ! (n - 1))) dictionaries = Inr (decoded ! n)"
  proof (intro allI impI)
    fix n assume n: "n < length data_rows"
    have eq: "(if [] @ take n decoded = [] then None else Some (last ([] @ take n decoded))) =
          (if n = 0 then None else Some (decoded ! (n - 1)))"
    proof (cases "n = 0")
      case True
      then show ?thesis by simp
    next
      case False
      with n len have "take n decoded \<noteq> []" by auto
      moreover from False n len have "last (take n decoded) = decoded ! (n - 1)"
        by (simp add: last_take_nth)
      ultimately show ?thesis using False by simp
    qed
    from steps n have "process_row_with_binary_masks rt (data_rows ! n)
            (if [] @ take n decoded = [] then None else Some (last ([] @ take n decoded)))
            dictionaries = Inr (decoded ! n)"
      by blast
    then show "process_row_with_binary_masks rt (data_rows ! n)
            (if n = 0 then None else Some (decoded ! (n - 1))) dictionaries = Inr (decoded ! n)"
      unfolding eq .
  qed
  with len csv show ?thesis by (intro exI[of _ decoded]) simp
qed

text \<open>
  C6. When the batch driver returns, there is a list \<open>decoded\<close> with one decoded row per
  input row, in the order of the input: row \<open>n\<close> is decoded with no previous row for
  \<open>n = 0\<close> and with the decoded row \<open>n - 1\<close> otherwise (the positional row itself, whether
  or not its projection was accepted), and the output is the projection of the decoded
  rows with a true date slot, in the same order.
\<close>

theorem batch_driver_sequential:
  assumes "process_data_with_binary_masks rt data_rows dictionaries timestamp = Inr csv_data"
  shows "\<exists>decoded. length decoded = length data_rows \<and>
           (\<forall>n<length data_rows.
              process_row_with_binary_masks rt (data_rows ! n)
                (if n = 0 then None else Some (decoded ! (n - 1))) dictionaries =
              Inr (decoded ! n)) \<and>
           csv_data =
             map (\<lambda>row. mapped_fields row timestamp) (filter (\<lambda>row. truthy (row ! 0)) decoded)"
  using assms by (rule process_data_decoded)

lemma truthy_not_empty: "truthy x \<Longrightarrow> x \<noteq> PyStr [] \<and> x \<noteq> PyNone"
  by auto

text \<open>
  C7. Every record that the batch driver, and so the run, returns has a date that is true,
  hence neither the empty string nor \<open>None\<close>; and a decoded row whose mapped date is
  false (empty or missing) is rejected by the projector, whatever its other slots hold.
\<close>

theorem output_dates_nonempty:
  "(process_data_with_binary_masks rt data_rows dictionaries timestamp = Inr csv_data \<longrightarrow>
      (\<forall>r\<in>set csv_data. truthy (date r) \<and> date r \<noteq> PyStr [] \<and> date r \<noteq> PyNone)) \<and>
   (process_json_to_csv rt json_data = Inr csv_data \<longrightarrow>
      (\<forall>r\<in>set csv_data. truthy (date r) \<and> date r \<noteq> PyStr [] \<and> date r \<noteq> PyNone)) \<and>
   (15 \<le> length processed_row \<and> \<not> truthy (date (mapped_fields processed_row timestamp)) \<longrightarrow>
      convert_processed_row_to_csv processed_row timestamp = Inr None)"
proof -
  have driver: "\<forall>r\<in>set out. truthy (date r) \<and> date r \<noteq> PyStr [] \<and> date r \<noteq> PyNone"
    if "process_data_with_binary_masks rt rows dicts ts = Inr out" for rows dicts ts out
  proof -
    from process_data_decoded[OF that] obtain decoded where
      "out = map (\<lambda>row. mapped_fields row ts) (filter (\<lambda>row. truthy (row ! 0)) decoded)"
      by blast
    then show ?thesis
      by (auto simp: mapped_fields_def or_empty_truthy)
  qed
  have "\<forall>r\<in>set csv_data. truthy (date r) \<and> date r \<noteq> PyStr [] \<and> date r \<noteq> PyNone"
    if "process_json_to_csv rt json_data = Inr csv_data"
  proof -
    from that obtain rows dicts ts where
      "process_data_with_binary_masks rt rows dicts ts = Inr csv_data"
      by (auto simp: process_json_to_csv_def bind_result_Inr split: prod.splits)
    then show ?thesis by (rule driver)
  qed
  moreover have "convert_processed_row_to_csv processed_row timestamp = Inr None"
    if "15 \<le> length processed_row \<and> \<not> truthy (date (mapped_fields processed_row timestamp))"
    using that by (simp add: convert_processed_row_to_csv_def)
  ultimately show ?thesis using driver by blast
qed

subsection \<open>The row locator\<close>

lemma find_rows_nodes:
  "find_rows obj data_rows = data_rows @ filter is_row_candidate (depth_first_nodes obj)"
  "find_rows_values kvs data_rows = data_rows @ filter is_row_candidate (nodes_of_values kvs)"
  "find_rows_items items data_rows = data_rows @ filter is_row_candidate (nodes_of_items items)"
proof (induction obj data_rows and kvs data_rows and items data_rows
       rule: find_rows_find_rows_values_find_rows_items.induct)
  case (1 kvs data_rows)
  then show ?case
    by (simp split: option.splits pyvalue.splits)
qed simp_all

lemma has_mask_iff:
  "has_mask row \<longleftrightarrow>
     (\<exists>kvs v. row = PyDict kvs \<and> v \<noteq> PyNone \<and>
        (map_of kvs ''R'' = Some v \<or> map_of kvs key_null_mask = Some v))"
  by (cases row) (auto split: option.splits)

lemma extract_rows:
  assumes "extract_data_from_json json_data = Inr (filtered_rows, dictionaries, timestamp)"
  shows "filtered_rows = filter has_mask (find_rows json_data [])"
  using assms
  by (auto simp: extract_data_from_json_def bind_result_Inr split: if_splits)

text \<open>
  C8. The rows that \<^verbatim>\<open>find_rows\<close> collects from a tree are exactly its row candidates, in
  depth-first encounter order, at whatever depth below mappings and sequences they stand;
  the rows that \<^verbatim>\<open>extract_data_from_json\<close> returns are those of them that pass the mask
  filter, in the same order, and a row passes when it has a field \<^verbatim>\<open>R\<close> or a null-mask
  field whose value is not \<open>None\<close>.
\<close>

theorem row_locator_preorder:
  "find_rows json_data [] = filter is_row_candidate (depth_first_nodes json_data) \<and>
   (extract_data_from_json json_data = Inr (filtered_rows, dictionaries, timestamp) \<longrightarrow>
      filtered_rows = filter has_mask (filter is_row_candidate (depth_first_nodes json_data))) \<and>
   (has_mask row \<longleftrightarrow>
      (\<exists>kvs v. row = PyDict kvs \<and> v \<noteq> PyNone \<and>
         (map_of kvs ''R'' = Some v \<or> map_of kvs key_null_mask = Some v)))"
  using extract_rows[of json_data filtered_rows dictionaries timestamp] has_mask_iff[of row]
  by (simp add: find_rows_nodes)

subsection \<open>When decoding returns\<close>












subsection \<open>The example response\<close>

text \<open>The extraction and the batch run of the example, for any interpreter.\<close>

lemma example_extract:
  "extract_data_from_json example_json =
     Inr (example_rows, example_dictionaries, PyStr ''2024-02-01T00:00:00'')"
  by code_simp

lemma example_run:
  "process_data_with_binary_masks rt example_rows example_dictionaries timestamp =
     Inr (map (\<lambda>row. mapped_fields row timestamp)
       [[PyInt 20240105, PyStr ''Platform-A'', PyNone, PyNone, PyNone, PyNone, PyNone, PyNone,
          PyNone, PyNone, PyNone, PyNone, PyNone, PyNone, PyNone],
        [PyInt 20240106, PyStr ''Platform-A'', PyNone, PyNone, PyNone, PyNone, PyNone, PyNone,
          PyNone, PyNone, PyNone, PyNone, PyNone, PyNone, PyNone]])"
  by code_simp

text \<open>The three example rows: the second is decoded and rejected, and the third inherits
  its installation from the decoded second row.\<close>

theorem batch_driver_sequential_witness:
  "\<forall>rt. \<exists>decoded.
     length decoded = 3 \<and>
     process_row_with_binary_masks rt (example_rows ! 0) None example_dictionaries =
       Inr (decoded ! 0) \<and>
     process_row_with_binary_masks rt (example_rows ! 1) (Some (decoded ! 0)) example_dictionaries =
       Inr (decoded ! 1) \<and>
     process_row_with_binary_masks rt (example_rows ! 2) (Some (decoded ! 1)) example_dictionaries =
       Inr (decoded ! 2) \<and>
     process_data_with_binary_masks rt example_rows example_dictionaries (PyStr ''t'') =
       Inr (map (\<lambda>row. mapped_fields row (PyStr ''t'')) (filter (\<lambda>row. truthy (row ! 0)) decoded)) \<and>
     map date (map (\<lambda>row. mapped_fields row (PyStr ''t'')) (filter (\<lambda>row. truthy (row ! 0)) decoded)) =
       [PyInt 20240105, PyInt 20240106]"
proof (intro allI)
  fix rt
  let ?out = "map (\<lambda>row. mapped_fields row (PyStr ''t''))
       [[PyInt 20240105, PyStr ''Platform-A'', PyNone, PyNone, PyNone, PyNone, PyNone, PyNone,
          PyNone, PyNone, PyNone, PyNone, PyNone, PyNone, PyNone],
        [PyInt 20240106, PyStr ''Platform-A'', PyNone, PyNone, PyNone, PyNone, PyNone, PyNone,
          PyNone, PyNone, PyNone, PyNone, PyNone, PyNone, PyNone]]"
  have run: "process_data_with_binary_masks rt example_rows example_dictionaries (PyStr ''t'') = Inr ?out"
    by (rule example_run)
  have len: "length example_rows = 3" by (simp add: example_rows_def)
  from batch_driver_sequential[OF run] obtain decoded where
    dlen: "length decoded = length example_rows" and
    steps: "\<forall>n<length example_rows.
              process_row_with_binary_masks rt (example_rows ! n)
                (if n = 0 then None else Some (decoded ! (n - 1))) example_dictionaries =
              Inr (decoded ! n)" and
    out: "?out = map (\<lambda>row. mapped_fields row (PyStr ''t'')) (filter (\<lambda>row. truthy (row ! 0)) decoded)"
    by blast
  from steps[rule_format, of 0] len
  have s0: "process_row_with_binary_masks rt (example_rows ! 0) None example_dictionaries =
       Inr (decoded ! 0)"
    by simp
  from steps[rule_format, of 1] len
  have s1: "process_row_with_binary_masks rt (example_rows ! 1) (Some (decoded ! 0))
       example_dictionaries = Inr (decoded ! 1)"
    by simp
  from steps[rule_format, of 2] len
  have s2: "process_row_with_binary_masks rt (example_rows ! 2) (Some (decoded ! 1))
       example_dictionaries = Inr (decoded ! 2)"
    by simp
  have dates: "map date ?out = [PyInt 20240105, PyInt 20240106]"
    by (simp add: mapped_fields_def or_empty_def)
  show "\<exists>decoded.
     length decoded = 3 \<and>
     process_row_with_binary_masks rt (example_rows ! 0) None example_dictionaries =
       Inr (decoded ! 0) \<and>
     process_row_with_binary_masks rt (example_rows ! 1) (Some (decoded ! 0)) example_dictionaries =
       Inr (decoded ! 1) \<and>
     process_row_with_binary_masks rt (example_rows ! 2) (Some (decoded ! 1)) example_dictionaries =
       Inr (decoded ! 2) \<and>
     process_data_with_binary_masks rt example_rows example_dictionaries (PyStr ''t'') =
       Inr (map (\<lambda>row. mapped_fields row (PyStr ''t'')) (filter (\<lambda>row. truthy (row ! 0)) decoded)) \<and>
     map date (map (\<lambda>row. mapped_fields row (PyStr ''t'')) (filter (\<lambda>row. truthy (row ! 0)) decoded)) =
       [PyInt 20240105, PyInt 20240106]"
    using dlen len s0 s1 s2 run dates unfolding out
    by (intro exI[of _ decoded]) simp
qed

text \<open>The run of the example response returns two records with true dates; the decoded
  second row, whose date slot is \<open>None\<close>, is rejected.\<close>

theorem output_dates_nonempty_witness:
  "\<forall>rt. \<exists>csv_data.
     process_data_with_binary_masks rt example_rows example_dictionaries (PyStr ''2024-02-01T00:00:00'') =
       Inr csv_data \<and>
     process_json_to_csv rt example_json = Inr csv_data \<and>
     map date csv_data = [PyInt 20240105, PyInt 20240106] \<and>
     list_all (\<lambda>r. truthy (date r) \<and> date r \<noteq> PyStr [] \<and> date r \<noteq> PyNone) csv_data \<and>
     convert_processed_row_to_csv
       [PyNone, PyStr ''Platform-A'', PyNone, PyNone, PyNone, PyNone, PyNone, PyNone,
        PyNone, PyNone, PyNone, PyNone, PyNone, PyNone, PyNone] (PyStr ''2024-02-01T00:00:00'') = Inr None"
proof (intro allI)
  fix rt
  let ?ts = "PyStr ''2024-02-01T00:00:00''"
  let ?rejected = "[PyNone, PyStr ''Platform-A'', PyNone, PyNone, PyNone, PyNone, PyNone, PyNone,
        PyNone, PyNone, PyNone, PyNone, PyNone, PyNone, PyNone]"
  let ?out = "map (\<lambda>row. mapped_fields row ?ts)
       [[PyInt 20240105, PyStr ''Platform-A'', PyNone, PyNone, PyNone, PyNone, PyNone, PyNone,
          PyNone, PyNone, PyNone, PyNone, PyNone, PyNone, PyNone],
        [PyInt 20240106, PyStr ''Platform-A'', PyNone, PyNone, PyNone, PyNone, PyNone, PyNone,
          PyNone, PyNone, PyNone, PyNone, PyNone, PyNone, PyNone]]"
  have run: "process_data_with_binary_masks rt example_rows example_dictionaries ?ts = Inr ?out"
    by (rule example_run)
  have full: "process_json_to_csv rt example_json = Inr ?out"
    by (simp add: process_json_to_csv_def example_extract bind_result_simps run)
  have falsy: "15 \<le> length ?rejected \<and> \<not> truthy (date (mapped_fields ?rejected ?ts))"
    by (simp add: mapped_fields_def or_empty_def)
  have dates: "map date ?out = [PyInt 20240105, PyInt 20240106]"
    by (simp add: mapped_fields_def or_empty_def)
  from output_dates_nonempty[of rt example_rows example_dictionaries ?ts ?out example_json ?rejected]
    run full falsy
  have all: "\<forall>r\<in>set ?out. truthy (date r) \<and> date r \<noteq> PyStr [] \<and> date r \<noteq> PyNone"
    and rejected: "convert_processed_row_to_csv ?rejected ?ts = Inr None"
    by blast+
  from all have "list_all (\<lambda>r. truthy (date r) \<and> date r \<noteq> PyStr [] \<and> date r \<noteq> PyNone) ?out"
    unfolding list_all_iff .
  with run full dates rejected
  show "\<exists>csv_data.
     process_data_with_binary_masks rt example_rows example_dictionaries ?ts = Inr csv_data \<and>
     process_json_to_csv rt example_json = Inr csv_data \<and>
     map date csv_data = [PyInt 20240105, PyInt 20240106] \<and>
     list_all (\<lambda>r. truthy (date r) \<and> date r \<noteq> PyStr [] \<and> date r \<noteq> PyNone) csv_data \<and>
     convert_processed_row_to_csv ?rejected ?ts = Inr None"
    by (intro exI[of _ ?out]) (intro conjI, assumption+)
qed

text \<open>The example response: four candidates in encounter order, the summary row without
  a mask filtered out; a mask 0 counts as a mask.\<close>

theorem row_locator_preorder_witness:
  "find_rows example_json [] = PyDict [(''C'', PyList [PyInt 3])] # example_rows \<and>
   find_rows example_json [] = filter is_row_candidate (depth_first_nodes example_json) \<and>
   extract_data_from_json example_json =
     Inr (example_rows, example_dictionaries, PyStr ''2024-02-01T00:00:00'') \<and>
   example_rows = filter has_mask (filter is_row_candidate (depth_first_nodes example_json)) \<and>
   \<not> has_mask (PyDict [(''C'', PyList [PyInt 3])]) \<and>
   has_mask (PyDict [(''C'', PyList []), (''R'', PyInt 0)])"
proof -
  have found: "find_rows example_json [] = PyDict [(''C'', PyList [PyInt 3])] # example_rows"
    by code_simp
  have masks: "\<not> has_mask (PyDict [(''C'', PyList [PyInt 3])])"
    "has_mask (PyDict [(''C'', PyList []), (''R'', PyInt 0)])"
    by code_simp+
  from row_locator_preorder[of example_json example_rows example_dictionaries
      "PyStr ''2024-02-01T00:00:00''"] example_extract
  have "find_rows example_json [] = filter is_row_candidate (depth_first_nodes example_json) \<and>
        example_rows = filter has_mask (filter is_row_candidate (depth_first_nodes example_json))"
    by blast
  with found masks example_extract show ?thesis by blast
qed

subsection \<open>Timestamps\<close>

lemma py_gt_truthy: "py_gt t k = Some True \<Longrightarrow> 0 \<le> k \<Longrightarrow> truthy t"
  by (induction t k rule: py_gt.induct) (auto split: if_splits)

lemma py_gt_float: "py_gt (PyFloat f) k \<noteq> None"
  by (cases f) auto

lemma convert_timestamp_non_string:
  assumes "\<forall>s. t \<noteq> PyStr s"
  shows "convert_timestamp rt t =
     (if py_gt t 1000000000000 = Some True then
        (case date_from_millis rt t of Some d \<Rightarrow> PyStr d | None \<Rightarrow> t)
      else if py_gt t 1000000000 = Some True then
        (case date_from_seconds rt t of Some d \<Rightarrow> PyStr d | None \<Rightarrow> t)
      else t)"
proof (cases "truthy t")
  case True
  with assms show ?thesis
    by (cases t) (auto simp: convert_timestamp_def py_gt_float split: option.splits bool.splits)
next
  case False
  then have "py_gt t 1000000000000 \<noteq> Some True" "py_gt t 1000000000 \<noteq> Some True"
    using py_gt_truthy[of t 1000000000000] py_gt_truthy[of t 1000000000] by auto
  with False show ?thesis by (simp add: convert_timestamp_def)
qed

lemma convert_timestamp_string:
  "convert_timestamp rt (PyStr s) =
     (if s = [] then PyStr s
      else case float_of_str rt s of
        None \<Rightarrow> PyStr s
      | Some f \<Rightarrow>
          (if py_gt (PyFloat f) 1000000000000 = Some True then
             (case date_from_millis rt (PyFloat f) of Some d \<Rightarrow> PyStr d | None \<Rightarrow> PyFloat f)
           else if py_gt (PyFloat f) 1000000000 = Some True then
             (case date_from_seconds rt (PyFloat f) of Some d \<Rightarrow> PyStr d | None \<Rightarrow> PyFloat f)
           else PyFloat f))"
  by (auto simp: convert_timestamp_def py_gt_float split: option.splits bool.splits)

text \<open>
  C4, as the code has it. A column 0 whose repeat and null bits are 0 takes the entry at
  the cursor, stores \<^verbatim>\<open>convert_timestamp\<close> of it and advances the cursor; nothing is
  raised. An entry that is not a string and is greater than \<open>10^12\<close> is converted as
  milliseconds, one greater than \<open>10^9\<close> and at most \<open>10^12\<close> as seconds, and the slot is
  the date string when the conversion returns one and the entry itself when it raises;
  any other entry that is not a string is returned unchanged. A string that \<^verbatim>\<open>float\<close>
  rejects is returned unchanged; a string that \<^verbatim>\<open>float\<close> reads gives the date string
  under the same two thresholds when the conversion returns one.
\<close>

theorem timestamp_conversion:
  "(mask_bit r_binary 0 = Inr 0 \<and> mask_bit sigma_binary 0 = Inr 0 \<and> value_index < length entries \<longrightarrow>
      process_column rt (PyList entries) r_binary sigma_binary previous_row dictionaries 0
        (result, value_index) =
      Inr (result[0 := convert_timestamp rt (entries ! value_index)], value_index + 1)) \<and>
   ((\<forall>s. t \<noteq> PyStr s) \<and> py_gt t 1000000000000 = Some True \<longrightarrow>
      convert_timestamp rt t = (case date_from_millis rt t of Some d \<Rightarrow> PyStr d | None \<Rightarrow> t)) \<and>
   ((\<forall>s. t \<noteq> PyStr s) \<and> py_gt t 1000000000000 = Some False \<and> py_gt t 1000000000 = Some True \<longrightarrow>
      convert_timestamp rt t = (case date_from_seconds rt t of Some d \<Rightarrow> PyStr d | None \<Rightarrow> t)) \<and>
   ((\<forall>s. t \<noteq> PyStr s) \<and> py_gt t 1000000000 \<noteq> Some True \<longrightarrow> convert_timestamp rt t = t) \<and>
   (float_of_str rt s = None \<longrightarrow> convert_timestamp rt (PyStr s) = PyStr s) \<and>
   (s \<noteq> [] \<and> float_of_str rt s = Some f \<and> py_gt (PyFloat f) 1000000000000 = Some True \<and>
    date_from_millis rt (PyFloat f) = Some d \<longrightarrow> convert_timestamp rt (PyStr s) = PyStr d) \<and>
   (s \<noteq> [] \<and> float_of_str rt s = Some f \<and> py_gt (PyFloat f) 1000000000000 = Some False \<and>
    py_gt (PyFloat f) 1000000000 = Some True \<and>
    date_from_seconds rt (PyFloat f) = Some d \<longrightarrow> convert_timestamp rt (PyStr s) = PyStr d)"
proof -
  have step: "process_column rt (PyList entries) r_binary sigma_binary previous_row dictionaries 0
        (result, value_index) =
      Inr (result[0 := convert_timestamp rt (entries ! value_index)], value_index + 1)"
    if "mask_bit r_binary 0 = Inr 0 \<and> mask_bit sigma_binary 0 = Inr 0 \<and> value_index < length entries"
  proof -
    have "resolve_value rt dictionaries (columns ! 0) (entries ! value_index) =
            (convert_timestamp rt (entries ! value_index), True)"
      by (simp add: resolve_value_def columns_def)
    moreover have "process_column rt (PyList entries) r_binary sigma_binary previous_row dictionaries 0
        (result, value_index) =
         Inr (result[0 := fst (resolve_value rt dictionaries (columns ! 0) (entries ! value_index))],
              if snd (resolve_value rt dictionaries (columns ! 0) (entries ! value_index))
              then value_index + 1 else value_index)"
      using that by (intro process_column_consumes[where n = "length entries"]) simp_all
    ultimately show ?thesis by simp
  qed
  have above_millis: "py_gt t 1000000000000 = Some True \<Longrightarrow> py_gt t 1000000000 = Some True" for t
    by (induction t "1000000000000 :: int" rule: py_gt.induct) (auto split: if_splits)
  have numbers: "convert_timestamp rt t =
     (if py_gt t 1000000000000 = Some True then
        (case date_from_millis rt t of Some d \<Rightarrow> PyStr d | None \<Rightarrow> t)
      else if py_gt t 1000000000 = Some True then
        (case date_from_seconds rt t of Some d \<Rightarrow> PyStr d | None \<Rightarrow> t)
      else t)" if "\<forall>s. t \<noteq> PyStr s"
    using that by (rule convert_timestamp_non_string)
  show ?thesis
    using step numbers above_millis[of t] convert_timestamp_string[of rt s]
    by (auto split: option.splits)
qed

text \<open>
  C4 as stated fails: 946684800 is the first second of the year 2000 in UTC, an epoch
  timestamp in seconds; it does not exceed \<open>10^9\<close>, and the slot is the integer itself,
  not a date string, whatever the interpreter's library does.
\<close>

theorem small_timestamp_counterexample:
  "\<forall>rt. convert_timestamp rt (PyInt 946684800) = PyInt 946684800"
  by (simp add: convert_timestamp_def)

text \<open>Integers above both thresholds, between them and below them, a list, and strings
  in interpreters whose \<^verbatim>\<open>float\<close> rejects the string or reads it and whose library answers
  with a date.\<close>

theorem timestamp_conversion_witness:
  "\<forall>rt :: pyrt.
     process_column rt (PyList [PyInt 946684800]) ''0000000000000000'' ''0000000000000000'' None
       example_dictionaries 0 (replicate 15 PyNone, 0) =
       Inr ((replicate 15 PyNone)[0 := convert_timestamp rt (PyInt 946684800)], 1) \<and>
     convert_timestamp rt (PyInt 1700000000000) =
       (case date_from_millis rt (PyInt 1700000000000) of
          Some d \<Rightarrow> PyStr d | None \<Rightarrow> PyInt 1700000000000) \<and>
     convert_timestamp rt (PyInt 1700000000) =
       (case date_from_seconds rt (PyInt 1700000000) of
          Some d \<Rightarrow> PyStr d | None \<Rightarrow> PyInt 1700000000) \<and>
     convert_timestamp rt (PyInt 946684800) = PyInt 946684800 \<and>
     convert_timestamp rt (PyList [PyInt 1]) = PyList [PyInt 1] \<and>
     convert_timestamp (rt\<lparr>float_of_str := \<lambda>s. None\<rparr>) (PyStr ''n/a'') = PyStr ''n/a'' \<and>
     convert_timestamp
       (rt\<lparr>float_of_str := \<lambda>s. Some (Finite 1700000000000),
           truediv_1000 := \<lambda>t. Some (PyFloat (Finite 1700000000)),
           strftime_ymd := \<lambda>t. Some ''2023-11-14''\<rparr>) (PyStr ''1700000000000'') =
       PyStr ''2023-11-14'' \<and>
     convert_timestamp
       (rt\<lparr>float_of_str := \<lambda>s. Some (Finite 1700000000),
           strftime_ymd := \<lambda>t. Some ''2023-11-14''\<rparr>) (PyStr ''1700000000'') =
       PyStr ''2023-11-14''"
proof (intro allI)
  fix rt :: pyrt
  let ?zeros = "''0000000000000000''"
  let ?ms = "rt\<lparr>float_of_str := \<lambda>s. Some (Finite 1700000000000),
           truediv_1000 := \<lambda>t. Some (PyFloat (Finite 1700000000)),
           strftime_ymd := \<lambda>t. Some ''2023-11-14''\<rparr>"
  let ?sec = "rt\<lparr>float_of_str := \<lambda>s. Some (Finite 1700000000),
           strftime_ymd := \<lambda>t. Some ''2023-11-14''\<rparr>"
  have bit0: "mask_bit ?zeros 0 = Inr 0" by code_simp
  note tc = timestamp_conversion[where r_binary = ?zeros and sigma_binary = ?zeros
      and value_index = 0 and previous_row = None and dictionaries = example_dictionaries
      and result = "replicate 15 PyNone" and entries = "[PyInt 946684800]"]
  have step: "process_column rt (PyList [PyInt 946684800]) ?zeros ?zeros None
       example_dictionaries 0 (replicate 15 PyNone, 0) =
       Inr ((replicate 15 PyNone)[0 := convert_timestamp rt (PyInt 946684800)], 1)"
    using tc[where rt = rt and t = PyNone and s = "[]" and f = NaN and d = "[]"] bit0 by simp
  have millis: "convert_timestamp rt (PyInt 1700000000000) =
       (case date_from_millis rt (PyInt 1700000000000) of
          Some d \<Rightarrow> PyStr d | None \<Rightarrow> PyInt 1700000000000)"
    using tc[where rt = rt and t = "PyInt 1700000000000" and s = "[]" and f = NaN and d = "[]"]
    by simp
  have seconds: "convert_timestamp rt (PyInt 1700000000) =
       (case date_from_seconds rt (PyInt 1700000000) of
          Some d \<Rightarrow> PyStr d | None \<Rightarrow> PyInt 1700000000)"
    using tc[where rt = rt and t = "PyInt 1700000000" and s = "[]" and f = NaN and d = "[]"]
    by simp
  have small: "convert_timestamp rt (PyInt 946684800) = PyInt 946684800"
    using tc[where rt = rt and t = "PyInt 946684800" and s = "[]" and f = NaN and d = "[]"]
    by simp
  have other: "convert_timestamp rt (PyList [PyInt 1]) = PyList [PyInt 1]"
    using tc[where rt = rt and t = "PyList [PyInt 1]" and s = "[]" and f = NaN and d = "[]"]
    by simp
  have rejected: "convert_timestamp (rt\<lparr>float_of_str := \<lambda>s. None\<rparr>) (PyStr ''n/a'') = PyStr ''n/a''"
    using tc[where rt = "rt\<lparr>float_of_str := \<lambda>s. None\<rparr>" and t = PyNone and s = "''n/a''"
        and f = NaN and d = "[]"]
    by simp
  have text_millis: "convert_timestamp ?ms (PyStr ''1700000000000'') = PyStr ''2023-11-14''"
    using tc[where rt = ?ms and t = PyNone and s = "''1700000000000''"
        and f = "Finite 1700000000000" and d = "''2023-11-14''"]
    by (simp add: date_from_millis_def)
  have text_seconds: "convert_timestamp ?sec (PyStr ''1700000000'') = PyStr ''2023-11-14''"
    using tc[where rt = ?sec and t = PyNone and s = "''1700000000''"
        and f = "Finite 1700000000" and d = "''2023-11-14''"]
    by (simp add: date_from_seconds_def)
  from step millis seconds small other rejected text_millis text_seconds
  show "process_column rt (PyList [PyInt 946684800]) ''0000000000000000'' ''0000000000000000'' None
       example_dictionaries 0 (replicate 15 PyNone, 0) =
       Inr ((replicate 15 PyNone)[0 := convert_timestamp rt (PyInt 946684800)], 1) \<and>
     convert_timestamp rt (PyInt 1700000000000) =
       (case date_from_millis rt (PyInt 1700000000000) of
          Some d \<Rightarrow> PyStr d | None \<Rightarrow> PyInt 1700000000000) \<and>
     convert_timestamp rt (PyInt 1700000000) =
       (case date_from_seconds rt (PyInt 1700000000) of
          Some d \<Rightarrow> PyStr d | None \<Rightarrow> PyInt 1700000000) \<and>
     convert_timestamp rt (PyInt 946684800) = PyInt 946684800 \<and>
     convert_timestamp rt (PyList [PyInt 1]) = PyList [PyInt 1] \<and>
     convert_timestamp (rt\<lparr>float_of_str := \<lambda>s. None\<rparr>) (PyStr ''n/a'') = PyStr ''n/a'' \<and>
     convert_timestamp ?ms (PyStr ''1700000000000'') = PyStr ''2023-11-14'' \<and>
     convert_timestamp ?sec (PyStr ''1700000000'') = PyStr ''2023-11-14''"
    by (intro conjI)
qed

subsection \<open>The cursor\<close>

text \<open>
  C2 at the row \<open>{'C': ['x', '0'], null mask 1}\<close> with the example dictionaries. Column 0
  is null. Column 1 takes the entry \<open>'x'\<close>, which is not converted to an index, and the
  \<^verbatim>\<open>continue\<close> leaves the cursor at 0: the columns 2 to 10 take the same entry again,
  column 11 takes it and advances, and the entry \<open>'0'\<close> arrives in column 12 instead of
  column 2.
\<close>

theorem continue_skips_cursor_advance:
  "\<forall>rt.
     process_column rt (PyList [PyStr ''x'', PyStr ''0'']) ''0000000000000000'' ''0000000000000000''
       None example_dictionaries 1 (replicate 15 PyNone, 0) =
       Inr ((replicate 15 PyNone)[1 := PyStr ''x''], 0) \<and>
     process_row_with_binary_masks rt
       (PyDict [(''C'', PyList [PyStr ''x'', PyStr ''0'']), (key_null_mask, PyInt 1)])
       None example_dictionaries =
       Inr [PyNone, PyStr ''x'', PyStr ''x'', PyStr ''x'', PyStr ''x'', PyStr ''x'', PyStr ''x'',
            PyStr ''x'', PyStr ''x'', PyStr ''x'', PyStr ''x'', PyStr ''x'', PyStr ''0'',
            PyNone, PyNone]"
proof (intro allI conjI)
  fix rt
  show "process_column rt (PyList [PyStr ''x'', PyStr ''0'']) ''0000000000000000'' ''0000000000000000''
       None example_dictionaries 1 (replicate 15 PyNone, 0) =
       Inr ((replicate 15 PyNone)[1 := PyStr ''x''], 0)"
    by code_simp
  show "process_row_with_binary_masks rt
       (PyDict [(''C'', PyList [PyStr ''x'', PyStr ''0'']), (key_null_mask, PyInt 1)])
       None example_dictionaries =
       Inr [PyNone, PyStr ''x'', PyStr ''x'', PyStr ''x'', PyStr ''x'', PyStr ''x'', PyStr ''x'',
            PyStr ''x'', PyStr ''x'', PyStr ''x'', PyStr ''x'', PyStr ''x'', PyStr ''0'',
            PyNone, PyNone]"
    by code_simp
qed

subsection \<open>The run and its failures\<close>







end
